theory Spec2Isabelle
  imports Main "HOL-Library.Word"
begin

section \<open>The Cosmostation wallet client\<close>

text \<open>
  A shallow embedding of the class \<open>CosmostationClient\<close>: the event bridge
  (\<open>on\<close>, \<open>off\<close> over the private \<open>eventMap\<close>) and the asynchronous operations
  \<open>connect\<close>, \<open>getAccounts\<close>, \<open>sign\<close> and \<open>verify\<close>. The wallet extension
  itself is outside the class: what it answers is a parameter of every definition, and
  every call made to it is recorded.
\<close>

subsection \<open>Event bridge: state\<close>

text \<open>
  Listeners and native handles are objects, compared by identity by the JavaScript
  \<open>Map\<close>; an object is modelled by a number standing for its identity. A handle has the
  object type \<open>Event\<close>, so it is never falsy: the test \<open>if (event)\<close> of \<open>off\<close>
  separates a stored handle from the \<open>undefined\<close> of a failed lookup.
\<close>

type_synonym listener = nat
type_synonym event = nat

datatype native_call =
    NativeOn string listener
  | NativeOff event

text \<open>
  The state of one client instance: the field \<open>eventMap\<close>, a map from the event type to
  a map from the listener to the native handle, and the calls made so far to the wallet's
  own \<open>on\<close> and \<open>off\<close>, oldest first.
\<close>

record client_state =
  eventMap :: "string \<rightharpoonup> (listener \<rightharpoonup> event)"
  calls :: "native_call list"

definition new_client :: client_state where
  "new_client = \<lparr>eventMap = Map.empty, calls = []\<rparr>"

text \<open>The lookup \<open>this.eventMap.get(type)?.get(listener)\<close>.\<close>

definition stored :: "client_state \<Rightarrow> string \<Rightarrow> listener \<Rightarrow> event option" where
  "stored s type listener =
     (case eventMap s type of None \<Rightarrow> None | Some typeEventMap \<Rightarrow> typeEventMap listener)"

text \<open>
  \<open>on(type, listener)\<close>. The first argument is the handle that the wallet's
  \<open>this.cosmos.on(type, listener)\<close> returns to this call.
\<close>

definition on :: "event \<Rightarrow> string \<Rightarrow> listener \<Rightarrow> client_state \<Rightarrow> client_state" where
  "on event type listener s =
     (let typeEventMap = (case eventMap s type of None \<Rightarrow> Map.empty | Some m \<Rightarrow> m);
          typeEventMap' = typeEventMap(listener \<mapsto> event)
      in s\<lparr>eventMap := (eventMap s)(type \<mapsto> typeEventMap'),
            calls := calls s @ [NativeOn type listener]\<rparr>)"

text \<open>\<open>off(type, listener)\<close>: the map is read and never written.\<close>

definition off :: "string \<Rightarrow> listener \<Rightarrow> client_state \<Rightarrow> client_state" where
  "off type listener s =
     (case stored s type listener of
        Some event \<Rightarrow> s\<lparr>calls := calls s @ [NativeOff event]\<rparr>
      | None \<Rightarrow> s)"

text \<open>A caller's sequence of registrations and removals, run in order.\<close>

datatype bridge_op =
    On event string listener
  | Off string listener

fun apply_op :: "bridge_op \<Rightarrow> client_state \<Rightarrow> client_state" where
  "apply_op (On event type listener) s = on event type listener s"
| "apply_op (Off type listener) s = off type listener s"

fun run_ops :: "bridge_op list \<Rightarrow> client_state \<Rightarrow> client_state" where
  "run_ops [] s = s"
| "run_ops (x # xs) s = run_ops xs (apply_op x s)"

subsection \<open>Rejections\<close>

text \<open>
  What a promise of the client is rejected with: a string passed to \<open>Promise.reject\<close>
  by the client itself, the \<open>TypeError\<close> of reading a property of \<open>undefined\<close>, or
  whatever the wallet rejected a native request with.
\<close>

datatype rejection =
    Reason string
  | TypeError
  | NativeFailure string

text \<open>The four strings the client rejects with, under the names of the error taxonomy.\<close>

definition UnsupportedNamespace :: rejection where
  "UnsupportedNamespace = Reason ''Unmatched namespace.''"

definition MissingChainIds :: rejection where
  "MissingChainIds = Reason ''No chainIds provided.''"

definition MissingChainId :: rejection where
  "MissingChainId = Reason ''ChainId not provided.''"

definition UnsupportedOperation :: rejection where
  "UnsupportedOperation = Reason ''Only support message string verification.''"

subsection \<open>Data\<close>

text \<open>
  A document has the type \<open>unknown\<close>; the client only asks whether
  \<open>typeof doc === 'string'\<close>. \<open>'d\<close> is the type of every value that is not a string.
\<close>

datatype 'd doc =
    StringDoc string
  | StructuredDoc 'd

text \<open>
  \<open>AuthRange\<close>, as \<open>Object.entries(authRange)\<close> lists it: the namespaces in the
  order of the object's keys, each with its descriptor, of which the client reads
  \<open>chainIds\<close> (\<open>None\<close> is \<open>undefined\<close>; an array, also the empty one, is truthy).
\<close>

record descriptor =
  chainIds :: "string list option"

type_synonym authRange = "(string \<times> descriptor) list"

record EncodedString =
  val :: string
  encoding :: string

record WalletAccount =
  namespace :: string
  chainId :: "string option"
  username :: "string option"
  address :: EncodedString
  publicKey :: "EncodedString option"
  algo :: "string option"

text \<open>The wallet's answers, with the field names of the source prefixed where they clash.\<close>

record key =
  key_name :: string
  key_address :: string
  key_publicKey :: "8 word list"
  key_isLedger :: bool
  key_algo :: string

record aptos_account =
  aptos_address :: string
  aptos_publicKey :: string

record PubKey =
  pk_type :: string
  pk_value :: string

record SignMessageResponse =
  msg_pub_key :: PubKey
  msg_signature :: string

record 'd SignDocResponse =
  pub_key :: PubKey
  signature :: string
  signed_doc :: 'd

text \<open>
  \<open>Signature\<close>: \<open>publicKey\<close> is optional (the Ethereum branches of \<open>sign\<close> leave it
  out), \<open>signature_value\<close> is \<open>signature.value\<close>.
\<close>

record 'd Signature =
  sig_publicKey :: "PubKey option"
  signature_value :: string
  signedDoc :: "'d doc"

record SignOptions =
  memo :: "bool option"
  fee :: "bool option"
  gasRate :: "string option"

subsection \<open>Native requests\<close>

text \<open>
  A native request is a call \<open>this.client.P.request({method, params})\<close>: the provider
  \<open>P\<close>, the method name and the parameters.
\<close>

datatype provider = CosmosProvider | EthereumProvider | AptosProvider | SuiProvider

datatype 'd params =
    NoParams
  | ChainNameParams string
  | SignMessageParams string string string
  | SignDocParams string 'd bool bool "string option"
  | VerifyMessageParams string string string string string
  | SignerDocParams string "'d doc"

datatype 'd native_request = Request provider string "'d params"

fun provider_of :: "'d native_request \<Rightarrow> provider" where
  "provider_of (Request p m ps) = p"

fun method_of :: "'d native_request \<Rightarrow> string" where
  "method_of (Request p m ps) = m"

text \<open>
  The wallet's answer to a request: when it is there and what the promise settles to.
  The time is the wallet's own and nothing is assumed of it. It is the step at which a
  function that awaits the promise goes on, counted from step 0 of the promises below;
  it is negative when the function goes on before that step. The wallet is one answer
  function for each type the source casts an answer to.
\<close>

type_synonym 'a reply = "int \<times> (rejection + 'a)"

record 'd wallet =
  account_reply :: "'d native_request \<Rightarrow> key reply"
  strings_reply :: "'d native_request \<Rightarrow> string list reply"
  aptos_reply :: "'d native_request \<Rightarrow> aptos_account reply"
  string_reply :: "'d native_request \<Rightarrow> string reply"
  void_reply :: "'d native_request \<Rightarrow> unit reply"
  sign_message_reply :: "'d native_request \<Rightarrow> SignMessageResponse reply"
  sign_doc_reply :: "'d native_request \<Rightarrow> 'd SignDocResponse reply"
  verify_reply :: "'d native_request \<Rightarrow> bool reply"
  result_reply :: "'d native_request \<Rightarrow> string reply"

text \<open>
  The functions the client imports from the packages \<open>@cosmos-kit/core\<close>,
  \<open>@cosmos-kit/cosmos\<close> and \<open>@cosmos-kit/ethereum\<close>, taken as parameters.
\<close>

record 'd imported =
  getStringFromUint8Array :: "8 word list \<Rightarrow> string \<Rightarrow> string"
  isCosmosDirectDoc :: "'d \<Rightarrow> bool"
  isEthTransactionDoc :: "'d \<Rightarrow> bool"

subsection \<open>Promises\<close>

text \<open>
  A promise that the client builds is modelled by what becomes of it: the step at which
  it settles, what it settles to (\<open>Inl\<close> a rejection, \<open>Inr\<close> the value), and the native
  requests issued on the way. Steps are counted from the client's own rejections: step 0
  is the step at which the promise of an \<open>async\<close> function that ends in
  \<open>return Promise.reject(..)\<close> is rejected, once the returned promise has been adopted;
  such promises are rejected in the order of their creation. A function that awaits a
  request goes on when the wallet's answer is there. That may be before step 0 (a request
  promise that is already rejected makes the function throw one microtask later, sooner
  than a returned promise is adopted), at step 0 or after it.
\<close>

record ('a, 'd) task =
  settled :: int
  outcome :: "rejection + 'a"
  issued :: "'d native_request list"

definition reject :: "rejection \<Rightarrow> ('a, 'd) task" where
  "reject e = \<lparr>settled = 0, outcome = Inl e, issued = []\<rparr>"

definition resolve :: "'a \<Rightarrow> ('a, 'd) task" where
  "resolve v = \<lparr>settled = 0, outcome = Inr v, issued = []\<rparr>"

definition request :: "('d native_request \<Rightarrow> 'a reply) \<Rightarrow> 'd native_request \<Rightarrow> ('a, 'd) task" where
  "request reply_of r =
     \<lparr>settled = fst (reply_of r), outcome = snd (reply_of r), issued = [r]\<rparr>"

text \<open>
  \<open>const v = await p; k(v)\<close> inside an \<open>async\<close> function: a rejection of \<open>p\<close> is the
  rejection of the function and the rest does not run.
\<close>

definition await :: "('a, 'd) task \<Rightarrow> ('a \<Rightarrow> ('b, 'd) task) \<Rightarrow> ('b, 'd) task" where
  "await p k =
     (case outcome p of
        Inl e \<Rightarrow> \<lparr>settled = settled p, outcome = Inl e, issued = issued p\<rparr>
      | Inr v \<Rightarrow> \<lparr>settled = settled p + settled (k v), outcome = outcome (k v),
                  issued = issued p @ issued (k v)\<rparr>)"

text \<open>
  \<open>Promise.all\<close>: every promise of the list has been started, so all their requests are
  issued (they are listed promise by promise). The result is fulfilled with all the values once the last promise is fulfilled,
  and rejected with the first rejection in time; of two rejections at the same step the
  one of the promise created first wins.
\<close>

definition both :: "('a, 'd) task \<Rightarrow> ('a list, 'd) task \<Rightarrow> ('a list, 'd) task" where
  "both p q =
     (case (outcome p, outcome q) of
        (Inr v, Inr vs) \<Rightarrow>
          \<lparr>settled = max (settled p) (settled q), outcome = Inr (v # vs),
           issued = issued p @ issued q\<rparr>
      | (Inl e, Inr vs) \<Rightarrow>
          \<lparr>settled = settled p, outcome = Inl e, issued = issued p @ issued q\<rparr>
      | (Inr v, Inl e') \<Rightarrow>
          \<lparr>settled = settled q, outcome = Inl e', issued = issued p @ issued q\<rparr>
      | (Inl e, Inl e') \<Rightarrow>
          (if settled p \<le> settled q
           then \<lparr>settled = settled p, outcome = Inl e, issued = issued p @ issued q\<rparr>
           else \<lparr>settled = settled q, outcome = Inl e', issued = issued p @ issued q\<rparr>))"

fun promise_all :: "('a, 'd) task list \<Rightarrow> ('a list, 'd) task" where
  "promise_all [] = resolve []"
| "promise_all (p # ps) = both p (promise_all ps)"

subsection \<open>connect\<close>

text \<open>The callback that \<open>connect\<close> maps over the entries of \<open>authRange\<close>.\<close>

definition connect_branch :: "'d wallet \<Rightarrow> string \<times> descriptor \<Rightarrow> (unit, 'd) task" where
  "connect_branch w entry =
     (case entry of (ns, d) \<Rightarrow>
        if ns = ''aptos'' then
          await (request (void_reply w) (Request AptosProvider ''aptos_connect'' NoParams))
            (\<lambda>_. resolve ())
        else if ns = ''sui'' then
          await (request (void_reply w) (Request SuiProvider ''sui_connect'' NoParams))
            (\<lambda>_. resolve ())
        else reject (Reason ''Unmatched namespace.''))"

definition connect :: "'d wallet \<Rightarrow> authRange \<Rightarrow> (unit, 'd) task" where
  "connect w authRange =
     await (promise_all (map (connect_branch w) authRange)) (\<lambda>_. resolve ())"

subsection \<open>getAccounts\<close>

text \<open>The account built from the answer to \<open>cos_requestAccount\<close> for one chain ID.\<close>

definition cosmos_account :: "'d imported \<Rightarrow> string \<Rightarrow> string \<Rightarrow> key \<Rightarrow> WalletAccount" where
  "cosmos_account imp c ns k =
     \<lparr>namespace = ns, chainId = Some c, username = Some (key_name k),
      address = \<lparr>val = key_address k, encoding = ''bech32''\<rparr>,
      publicKey = Some \<lparr>val = getStringFromUint8Array imp (key_publicKey k) ''hex'',
                        encoding = ''hex''\<rparr>,
      algo = Some (key_algo k)\<rparr>"

definition address_account :: "string \<Rightarrow> string \<Rightarrow> WalletAccount" where
  "address_account ns a =
     \<lparr>namespace = ns, chainId = None, username = None,
      address = \<lparr>val = a, encoding = ''hex''\<rparr>, publicKey = None, algo = None\<rparr>"

definition keyed_account :: "string \<Rightarrow> string \<Rightarrow> string \<Rightarrow> WalletAccount" where
  "keyed_account ns a pk =
     \<lparr>namespace = ns, chainId = None, username = None,
      address = \<lparr>val = a, encoding = ''hex''\<rparr>,
      publicKey = Some \<lparr>val = pk, encoding = ''hex''\<rparr>, algo = None\<rparr>"

definition cosmos_request_account ::
  "'d imported \<Rightarrow> 'd wallet \<Rightarrow> string \<Rightarrow> string \<Rightarrow> (WalletAccount, 'd) task" where
  "cosmos_request_account imp w ns c =
     await (request (account_reply w)
              (Request CosmosProvider ''cos_requestAccount'' (ChainNameParams c)))
       (\<lambda>k. resolve (cosmos_account imp c ns k))"

definition getAccounts_branch ::
  "'d imported \<Rightarrow> 'd wallet \<Rightarrow> string \<times> descriptor \<Rightarrow> (WalletAccount list, 'd) task" where
  "getAccounts_branch imp w entry =
     (case entry of (ns, d) \<Rightarrow>
        if ns = ''cosmos'' then
          (case chainIds d of
             None \<Rightarrow> reject (Reason ''No chainIds provided.'')
           | Some cs \<Rightarrow> promise_all (map (cosmos_request_account imp w ns) cs))
        else if ns = ''ethereum'' then
          await (request (strings_reply w)
                   (Request EthereumProvider ''eth_requestAccounts'' NoParams))
            (\<lambda>ethAddrs. resolve (map (address_account ns) ethAddrs))
        else if ns = ''aptos'' then
          await (request (aptos_reply w) (Request AptosProvider ''aptos_account'' NoParams))
            (\<lambda>r. resolve [keyed_account ns (aptos_address r) (aptos_publicKey r)])
        else if ns = ''sui'' then
          await (request (strings_reply w) (Request SuiProvider ''sui_getAccounts'' NoParams))
            (\<lambda>suiAddrs.
               await (request (string_reply w)
                        (Request SuiProvider ''sui_getPublicKey'' NoParams))
                 (\<lambda>suiPublicKey.
                    resolve (map (\<lambda>a. keyed_account ns a suiPublicKey) suiAddrs)))
        else reject (Reason ''Unmatched namespace.''))"

definition getAccounts ::
  "'d imported \<Rightarrow> 'd wallet \<Rightarrow> authRange \<Rightarrow> (WalletAccount list, 'd) task" where
  "getAccounts imp w authRange =
     await (promise_all (map (getAccounts_branch imp w) authRange))
       (\<lambda>accountsList. resolve (concat accountsList))"

subsection \<open>sign and verify\<close>

text \<open>
  The test \<open>!chainId\<close> on a \<open>string | undefined\<close> is true for \<open>undefined\<close> and
  for the empty string: \<open>provided\<close> is the chain ID that passes the test.
\<close>

definition provided :: "string option \<Rightarrow> string option" where
  "provided cid = (case cid of None \<Rightarrow> None | Some c \<Rightarrow> if c = [] then None else Some c)"

text \<open>\<open>!!(options?.memo)\<close>, \<open>!!(options?.fee)\<close> and \<open>options?.gasRate\<close>.\<close>

definition isEditMemo :: "SignOptions option \<Rightarrow> bool" where
  "isEditMemo options = (case options of None \<Rightarrow> False | Some opts \<Rightarrow> memo opts = Some True)"

definition isEditFee :: "SignOptions option \<Rightarrow> bool" where
  "isEditFee options = (case options of None \<Rightarrow> False | Some opts \<Rightarrow> fee opts = Some True)"

definition gasRate_of :: "SignOptions option \<Rightarrow> string option" where
  "gasRate_of options = (case options of None \<Rightarrow> None | Some opts \<Rightarrow> gasRate opts)"

definition sign_doc_method :: "'d imported \<Rightarrow> 'd \<Rightarrow> string" where
  "sign_doc_method imp d = (if isCosmosDirectDoc imp d then ''cos_signDirect'' else ''cos_signAmino'')"

definition sign ::
  "'d imported \<Rightarrow> 'd wallet \<Rightarrow> string \<Rightarrow> 'd doc \<Rightarrow> string \<Rightarrow> string option \<Rightarrow>
   SignOptions option \<Rightarrow> ('d Signature, 'd) task" where
  "sign imp w ns doc signerAddress cid options =
     (if ns = ''cosmos'' then
        (case provided cid of
           None \<Rightarrow> reject (Reason ''ChainId not provided.'')
         | Some c \<Rightarrow>
           (case doc of
              StringDoc message \<Rightarrow>
                await (request (sign_message_reply w)
                         (Request CosmosProvider ''cos_signMessage''
                            (SignMessageParams c signerAddress message)))
                  (\<lambda>r. resolve \<lparr>sig_publicKey = Some (msg_pub_key r),
                                 signature_value = msg_signature r, signedDoc = doc\<rparr>)
            | StructuredDoc d \<Rightarrow>
                await (request (sign_doc_reply w)
                         (Request CosmosProvider (sign_doc_method imp d)
                            (SignDocParams c d (isEditMemo options)
                               (isEditFee options) (gasRate_of options))))
                  (\<lambda>r. resolve \<lparr>sig_publicKey = Some (pub_key r),
                                 signature_value = signature r,
                                 signedDoc = StructuredDoc (signed_doc r)\<rparr>)))
      else if ns = ''ethereum'' then
        (case doc of
           StringDoc message \<Rightarrow>
             await (request (result_reply w)
                      (Request EthereumProvider ''eth_sign'' (SignerDocParams signerAddress doc)))
               (\<lambda>result. resolve \<lparr>sig_publicKey = None, signature_value = result,
                                   signedDoc = doc\<rparr>)
         | StructuredDoc d \<Rightarrow>
             if isEthTransactionDoc imp d then
               await (request (result_reply w)
                        (Request EthereumProvider ''eth_signTransaction''
                           (SignerDocParams signerAddress doc)))
                 (\<lambda>result. resolve \<lparr>sig_publicKey = None, signature_value = result,
                                     signedDoc = doc\<rparr>)
             else
               await (request (string_reply w)
                        (Request EthereumProvider ''eth_signTypedData_v4''
                           (SignerDocParams signerAddress doc)))
                 (\<lambda>s. resolve \<lparr>sig_publicKey = None, signature_value = s,
                                signedDoc = doc\<rparr>))
      else reject (Reason ''Unmatched namespace.''))"

text \<open>
  \<open>verify\<close>. Building the parameters reads \<open>signature.publicKey.value\<close>, which throws a
  \<open>TypeError\<close> inside the \<open>async\<close> function when the signature has no public key.
\<close>

definition verify ::
  "'d wallet \<Rightarrow> string \<Rightarrow> 'd doc \<Rightarrow> 'd Signature \<Rightarrow> string \<Rightarrow> string option \<Rightarrow>
   (bool, 'd) task" where
  "verify w ns doc sg signerAddress cid =
     (if ns = ''cosmos'' then
        (case provided cid of
           None \<Rightarrow> reject (Reason ''ChainId not provided.'')
         | Some c \<Rightarrow>
           (case doc of
              StringDoc message \<Rightarrow>
                (case sig_publicKey sg of
                   None \<Rightarrow> reject TypeError
                 | Some pk \<Rightarrow>
                     await (request (verify_reply w)
                              (Request CosmosProvider ''cos_verifyMessage''
                                 (VerifyMessageParams c signerAddress message
                                    (pk_value pk) (signature_value sg))))
                       (\<lambda>result. resolve result))
            | StructuredDoc d \<Rightarrow> reject (Reason ''Only support message string verification.'')))
      else reject (Reason ''Unmatched namespace.''))"

subsection \<open>A wallet that answers every request\<close>

text \<open>
  A wallet used where a concrete one is needed: it answers every request at once, an
  account request with a key named after the chain, a signing request with a document
  other than any it is sent.
\<close>

definition demo_key :: "string \<Rightarrow> key" where
  "demo_key c = \<lparr>key_name = ''alice'', key_address = c @ ''1abc'', key_publicKey = [2, 255],
                 key_isLedger = False, key_algo = ''secp256k1''\<rparr>"

definition demo_pub_key :: PubKey where
  "demo_pub_key = \<lparr>pk_type = ''tendermint/PubKeySecp256k1'', pk_value = ''A4''\<rparr>"

fun chain_of :: "nat native_request \<Rightarrow> string" where
  "chain_of (Request p m (ChainNameParams c)) = c"
| "chain_of r = []"

fun doc_after_edit :: "nat native_request \<Rightarrow> nat" where
  "doc_after_edit (Request p m (SignDocParams c d em ef g)) = Suc d"
| "doc_after_edit r = 0"

definition demo_wallet :: "nat wallet" where
  "demo_wallet =
     \<lparr>account_reply = (\<lambda>r. (0, Inr (demo_key (chain_of r)))),
      strings_reply = (\<lambda>r. (0, Inr [''0xabc''])),
      aptos_reply = (\<lambda>r. (0, Inr \<lparr>aptos_address = ''0x1'', aptos_publicKey = ''0x2''\<rparr>)),
      string_reply = (\<lambda>r. (0, Inr ''0x3'')),
      void_reply = (\<lambda>r. (0, Inr ())),
      sign_message_reply =
        (\<lambda>r. (0, Inr \<lparr>msg_pub_key = demo_pub_key, msg_signature = ''c2ln''\<rparr>)),
      sign_doc_reply =
        (\<lambda>r. (0, Inr \<lparr>pub_key = demo_pub_key, signature = ''c2ln'',
                       signed_doc = doc_after_edit r\<rparr>)),
      verify_reply = (\<lambda>r. (0, Inr True)),
      result_reply = (\<lambda>r. (0, Inr ''0x4''))\<rparr>"

definition demo_imported :: "nat imported" where
  "demo_imported =
     \<lparr>getStringFromUint8Array = (\<lambda>bytes enc. ''02ff''),
      isCosmosDirectDoc = (\<lambda>d. d = 1),
      isEthTransactionDoc = (\<lambda>d. d = 2)\<rparr>"

section \<open>Properties of the event bridge\<close>

lemma stored_on_same: "stored (on h t l s) t l = Some h"
  by (simp add: stored_def on_def Let_def)

lemma stored_off: "stored (off t' l' s) t l = stored s t l"
  by (simp add: stored_def off_def split: option.splits)

lemma eventMap_off: "eventMap (off t l s) = eventMap s"
  by (simp add: off_def split: option.splits)

lemma off_stored_calls:
  "stored s t l = Some h \<Longrightarrow> calls (off t l s) = calls s @ [NativeOff h]"
  by (simp add: off_def)

lemma off_absent: "stored s t l = None \<Longrightarrow> off t l s = s"
  by (simp add: off_def)

lemma stored_on_other:
  "(t', l') \<noteq> (t, l) \<Longrightarrow> stored (on h t' l' s) t l = stored s t l"
  by (auto simp: stored_def on_def Let_def split: option.splits)

lemma stored_apply_op:
  assumes "stored s t l = Some h" and "h \<noteq> h1" and "x \<noteq> On h1 t l"
  shows "\<exists>h'. stored (apply_op x s) t l = Some h' \<and> h' \<noteq> h1"
proof (cases x)
  case (On e t' l')
  show ?thesis
  proof (cases "(t', l') = (t, l)")
    case True
    with On assms(3) have "e \<noteq> h1" by auto
    with On True show ?thesis by (simp add: stored_on_same)
  next
    case False
    with On assms(1,2) show ?thesis by (simp add: stored_on_other)
  qed
next
  case (Off t' l')
  with assms(1,2) show ?thesis by (simp add: stored_off)
qed

lemma stored_run_ops:
  "stored s t l = Some h \<Longrightarrow> h \<noteq> h1 \<Longrightarrow> On h1 t l \<notin> set xs \<Longrightarrow>
   \<exists>h'. stored (run_ops xs s) t l = Some h' \<and> h' \<noteq> h1"
proof (induction xs arbitrary: s h)
  case Nil
  then show ?case by simp
next
  case (Cons x xs)
  from Cons.prems have "x \<noteq> On h1 t l" and rest: "On h1 t l \<notin> set xs" by auto
  with Cons.prems(1,2) obtain h' where "stored (apply_op x s) t l = Some h'" and "h' \<noteq> h1"
    using stored_apply_op by blast
  with rest show ?case using Cons.IH by simp
qed

text \<open>
  Claim C1, as the code has it: after \<open>on(t, L)\<close> a first \<open>off(t, L)\<close> makes exactly
  one native call, the unsubscribe with the handle returned at registration; \<open>off\<close>
  leaves \<open>eventMap\<close> as it was, so the entry stays, and a second \<open>off(t, L)\<close> makes
  the same native unsubscribe once more. On a pair that is not stored, \<open>off\<close> changes
  nothing and makes no native call.
\<close>

theorem off_after_on_unsubscribes_and_keeps_entry:
  "calls (off t l (on h t l s)) = calls (on h t l s) @ [NativeOff h]
   \<and> eventMap (off t l (on h t l s)) = eventMap (on h t l s)
   \<and> stored (off t l (on h t l s)) t l = Some h
   \<and> calls (off t l (off t l (on h t l s))) = calls (on h t l s) @ [NativeOff h, NativeOff h]
   \<and> (stored s t l = None \<longrightarrow> off t l s = s)"
  by (simp add: off_stored_calls stored_on_same stored_off eventMap_off off_absent)

theorem off_after_on_unsubscribes_and_keeps_entry_witness:
  "calls (off ''accountChanged'' 1 (on 7 ''accountChanged'' 1 new_client))
     = [NativeOn ''accountChanged'' 1, NativeOff 7]
   \<and> stored (off ''accountChanged'' 1 (on 7 ''accountChanged'' 1 new_client)) ''accountChanged'' 1
     = Some 7
   \<and> stored new_client ''accountChanged'' 1 = None
   \<and> off ''accountChanged'' 1 new_client = new_client"
  using off_after_on_unsubscribes_and_keeps_entry
          [of "''accountChanged''" 1 7 new_client]
  by (simp add: on_def new_client_def stored_def)

text \<open>
  Claim C1 as stated fails: the second \<open>off\<close> is not a no-op. On a fresh client,
  \<open>on("accountChanged", L)\<close> answered with handle 7 and then two calls of
  \<open>off("accountChanged", L)\<close> make the native unsubscribe twice.
\<close>

theorem second_off_counterexample:
  "calls (off ''accountChanged'' 1 (off ''accountChanged'' 1
            (on 7 ''accountChanged'' 1 new_client)))
     = [NativeOn ''accountChanged'' 1, NativeOff 7, NativeOff 7]
   \<and> off ''accountChanged'' 1 (off ''accountChanged'' 1 (on 7 ''accountChanged'' 1 new_client))
     \<noteq> off ''accountChanged'' 1 (on 7 ''accountChanged'' 1 new_client)"
  by (simp add: off_def on_def new_client_def stored_def)

text \<open>
  Claim C10: a second \<open>on(t, L)\<close> with no \<open>off\<close> in between replaces the handle stored
  for \<open>(t, L)\<close> by the handle of the second registration. The handle of the first
  registration, a different object, is then out of reach of \<open>off(t, L)\<close>: after any
  further operations in which the wallet does not hand out that first handle for
  \<open>(t, L)\<close> again, \<open>off(t, L)\<close> finds a handle other than the first one and passes
  exactly that handle to the native unsubscribe.
\<close>

theorem second_on_overwrites_handle:
  assumes "h1 \<noteq> h2" and "On h1 t l \<notin> set xs"
  shows "stored (on h1 t l s) t l = Some h1
   \<and> stored (on h2 t l (on h1 t l s)) t l = Some h2
   \<and> (\<exists>h. h \<noteq> h1
        \<and> stored (run_ops xs (on h2 t l (on h1 t l s))) t l = Some h
        \<and> calls (off t l (run_ops xs (on h2 t l (on h1 t l s))))
            = calls (run_ops xs (on h2 t l (on h1 t l s))) @ [NativeOff h])"
proof -
  let ?s2 = "on h2 t l (on h1 t l s)"
  have first: "stored ?s2 t l = Some h2" by (rule stored_on_same)
  from assms(1) have "h2 \<noteq> h1" by simp
  with first assms(2) obtain h where h: "stored (run_ops xs ?s2) t l = Some h" "h \<noteq> h1"
    using stored_run_ops by blast
  from h(1) have "calls (off t l (run_ops xs ?s2)) = calls (run_ops xs ?s2) @ [NativeOff h]"
    by (rule off_stored_calls)
  moreover have "stored (on h1 t l s) t l = Some h1" by (rule stored_on_same)
  ultimately show ?thesis using first h by blast
qed

theorem second_on_overwrites_handle_witness:
  "(7::nat) \<noteq> 8 \<and> On 7 ''accountChanged'' 1 \<notin> set [Off ''accountChanged'' 1, On 7 ''chainChanged'' 2]
   \<and> stored (on 7 ''accountChanged'' 1 new_client) ''accountChanged'' 1 = Some 7
   \<and> stored (on 8 ''accountChanged'' 1 (on 7 ''accountChanged'' 1 new_client)) ''accountChanged'' 1
       = Some 8
   \<and> calls (off ''accountChanged'' 1
        (run_ops [Off ''accountChanged'' 1, On 7 ''chainChanged'' 2]
           (on 8 ''accountChanged'' 1 (on 7 ''accountChanged'' 1 new_client))))
       = [NativeOn ''accountChanged'' 1, NativeOn ''accountChanged'' 1, NativeOff 8,
          NativeOn ''chainChanged'' 2, NativeOff 8]"
  using second_on_overwrites_handle
          [of 7 8 "''accountChanged''" 1 "[Off ''accountChanged'' 1, On 7 ''chainChanged'' 2]"
              new_client]
  by (simp add: on_def off_def new_client_def stored_def)

section \<open>Properties of promises\<close>

lemma outcome_reject [simp]: "outcome (reject e :: ('a, 'd) task) = Inl e"
  and settled_reject [simp]: "settled (reject e :: ('a, 'd) task) = 0"
  and issued_reject [simp]: "issued (reject e :: ('a, 'd) task) = []"
  by (simp_all add: reject_def)

lemma outcome_resolve [simp]: "outcome (resolve v :: ('a, 'd) task) = Inr v"
  and settled_resolve [simp]: "settled (resolve v :: ('a, 'd) task) = 0"
  and issued_resolve [simp]: "issued (resolve v :: ('a, 'd) task) = []"
  by (simp_all add: resolve_def)

lemma outcome_request [simp]: "outcome (request f r) = snd (f r)"
  and settled_request [simp]: "settled (request f r) = fst (f r)"
  and issued_request [simp]: "issued (request f r) = [r]"
  by (simp_all add: request_def)

lemma outcome_await:
  "outcome (await p k) = (case outcome p of Inl e \<Rightarrow> Inl e | Inr v \<Rightarrow> outcome (k v))"
  by (simp add: await_def split: sum.splits)

lemma issued_await:
  "issued (await p k) = (case outcome p of Inl e \<Rightarrow> issued p | Inr v \<Rightarrow> issued p @ issued (k v))"
  by (simp add: await_def split: sum.splits)

lemma settled_await:
  "settled (await p k) = (case outcome p of Inl e \<Rightarrow> settled p | Inr v \<Rightarrow> settled p + settled (k v))"
  by (simp add: await_def split: sum.splits)

lemma issued_both [simp]: "issued (both p q) = issued p @ issued q"
  by (simp add: both_def split: sum.splits)

lemma issued_promise_all: "issued (promise_all ps) = concat (map issued ps)"
  by (induction ps) simp_all

lemma outcome_both_Inr:
  "outcome (both p q) = Inr ws \<longleftrightarrow> (\<exists>v vs. outcome p = Inr v \<and> outcome q = Inr vs \<and> ws = v # vs)"
  by (auto simp: both_def split: sum.splits)

lemma promise_all_Inr:
  "outcome (promise_all ps) = Inr vs \<longleftrightarrow> list_all2 (\<lambda>p v. outcome p = Inr v) ps vs"
proof (induction ps arbitrary: vs)
  case Nil
  then show ?case by auto
next
  case (Cons p ps)
  then show ?case by (auto simp: outcome_both_Inr list_all2_Cons1)
qed

lemma promise_all_rejected_iff:
  "isl (outcome (promise_all ps)) \<longleftrightarrow> (\<exists>p\<in>set ps. isl (outcome p))"
proof (induction ps)
  case Nil
  then show ?case by simp
next
  case (Cons p ps)
  then show ?case by (auto simp: both_def isl_def split: sum.splits)
qed

text \<open>
  A rejection of \<open>Promise.all\<close> is the rejection of one of the promises, at its step.
\<close>

lemma promise_all_rejection_of_one:
  "outcome (promise_all ps) = Inl e \<Longrightarrow>
   \<exists>p\<in>set ps. outcome p = Inl e \<and> settled p = settled (promise_all ps)"
proof (induction ps arbitrary: e)
  case Nil
  then show ?case by simp
next
  case (Cons p ps)
  show ?case
  proof (cases "outcome (promise_all ps)")
    case (Inl e')
    with Cons.IH obtain q where q: "q \<in> set ps" "outcome q = Inl e'"
      "settled q = settled (promise_all ps)" by blast
    show ?thesis
    proof (cases "outcome p")
      case pl: (Inl e'')
      show ?thesis
      proof (cases "settled p \<le> settled (promise_all ps)")
        case True
        with Cons.prems Inl pl show ?thesis by (simp add: both_def)
      next
        case False
        with Cons.prems Inl pl q show ?thesis by (auto simp: both_def)
      qed
    next
      case (Inr v)
      with Cons.prems Inl q show ?thesis by (auto simp: both_def)
    qed
  next
    case (Inr vs)
    with Cons.prems show ?thesis by (auto simp: both_def split: sum.splits)
  qed
qed

text \<open>
  The first rejected promise of the list gives the rejection of \<open>Promise.all\<close> when no
  later promise of the list is rejected at an earlier step.
\<close>

lemma promise_all_rejected_head:
  assumes "outcome p = Inl e"
    and "\<forall>q\<in>set post. isl (outcome q) \<longrightarrow> settled p \<le> settled q"
  shows "outcome (promise_all (p # post)) = Inl e"
proof (cases "outcome (promise_all post)")
  case (Inl e')
  then obtain q where "q \<in> set post" "outcome q = Inl e'" "settled q = settled (promise_all post)"
    using promise_all_rejection_of_one by blast
  with assms(2) have "settled p \<le> settled (promise_all post)" by force
  with assms(1) Inl show ?thesis by (simp add: both_def)
next
  case (Inr vs)
  with assms(1) show ?thesis by (simp add: both_def)
qed

lemma promise_all_first_rejection:
  assumes "\<forall>q\<in>set pre. \<not> isl (outcome q)"
    and "outcome p = Inl e"
    and "\<forall>q\<in>set post. isl (outcome q) \<longrightarrow> settled p \<le> settled q"
  shows "outcome (promise_all (pre @ p # post)) = Inl e"
  using assms(1)
proof (induction pre)
  case Nil
  from assms(2,3) show ?case by (simp only: append_Nil promise_all_rejected_head)
next
  case (Cons a pre)
  then have rest: "outcome (promise_all (pre @ p # post)) = Inl e" by simp
  from Cons.prems obtain v where "outcome a = Inr v" by (cases "outcome a") auto
  with rest show ?case by (simp add: both_def)
qed

section \<open>Properties of connect\<close>

lemma connect_branch_unbound:
  "ns \<noteq> ''aptos'' \<Longrightarrow> ns \<noteq> ''sui'' \<Longrightarrow> connect_branch w (ns, d) = reject UnsupportedNamespace"
  by (simp add: connect_branch_def UnsupportedNamespace_def)

lemma issued_connect_branch:
  "issued (connect_branch w (ns, d)) =
     (if ns = ''aptos'' then [Request AptosProvider ''aptos_connect'' NoParams]
      else if ns = ''sui'' then [Request SuiProvider ''sui_connect'' NoParams] else [])"
  by (simp add: connect_branch_def issued_await split: sum.splits)

lemma outcome_connect: "outcome (connect w ar) =
   (case outcome (promise_all (map (connect_branch w) ar)) of Inl e \<Rightarrow> Inl e | Inr v \<Rightarrow> Inr ())"
  by (simp add: connect_def outcome_await split: sum.splits)

lemma issued_connect:
  "issued (connect w ar) = concat (map (\<lambda>entry. issued (connect_branch w entry)) ar)"
  by (simp add: connect_def issued_await issued_promise_all comp_def split: sum.splits)

lemma connect_rejected_iff:
  "isl (outcome (connect w ar)) \<longleftrightarrow> (\<exists>entry\<in>set ar. isl (outcome (connect_branch w entry)))"
proof -
  have "isl (outcome (connect w ar)) \<longleftrightarrow> isl (outcome (promise_all (map (connect_branch w) ar)))"
    by (simp add: outcome_connect split: sum.splits)
  then show ?thesis by (simp add: promise_all_rejected_iff)
qed

lemma connect_rejection_of_branch:
  assumes "outcome (connect w ar) = Inl e"
  shows "\<exists>entry\<in>set ar. outcome (connect_branch w entry) = Inl e"
proof -
  from assms have "outcome (promise_all (map (connect_branch w) ar)) = Inl e"
    by (simp add: outcome_connect split: sum.splits)
  then obtain p where "p \<in> set (map (connect_branch w) ar)" and "outcome p = Inl e"
    using promise_all_rejection_of_one by blast
  then show ?thesis by auto
qed

lemma connect_branch_rejections:
  assumes "outcome (connect_branch w entry) = Inl e"
    and "fst entry = ''aptos'' \<or> fst entry = ''sui'' \<longrightarrow> \<not> isl (outcome (connect_branch w entry))"
  shows "e = UnsupportedNamespace"
proof (cases entry)
  case (Pair ns d)
  with assms have "ns \<noteq> ''aptos''" and "ns \<noteq> ''sui''" by auto
  then have "connect_branch w (ns, d) = reject UnsupportedNamespace"
    by (rule connect_branch_unbound)
  with assms(1) Pair show ?thesis by simp
qed

lemma connect_only_unbound_rejected:
  assumes "\<exists>entry\<in>set ar. fst entry \<noteq> ''aptos'' \<and> fst entry \<noteq> ''sui''"
    and "\<forall>entry\<in>set ar. fst entry = ''aptos'' \<or> fst entry = ''sui'' \<longrightarrow>
           \<not> isl (outcome (connect_branch w entry))"
  shows "outcome (connect w ar) = Inl UnsupportedNamespace"
proof -
  from assms(1) obtain x where x: "x \<in> set ar" "fst x \<noteq> ''aptos''" "fst x \<noteq> ''sui''" by blast
  then have "connect_branch w (fst x, snd x) = reject UnsupportedNamespace"
    using connect_branch_unbound by blast
  then have "isl (outcome (connect_branch w x))" by simp
  with x(1) have "isl (outcome (connect w ar))" using connect_rejected_iff by blast
  then obtain e where e: "outcome (connect w ar) = Inl e" by (auto simp: isl_def)
  then obtain entry where entry: "entry \<in> set ar" "outcome (connect_branch w entry) = Inl e"
    using connect_rejection_of_branch by blast
  with assms(2) have "e = UnsupportedNamespace" using connect_branch_rejections by blast
  with e show ?thesis by simp
qed

text \<open>
  Claim C4, as the code has it: \<open>connect(authRange)\<close> issues the native
  grant-permission request for each namespace of \<open>authRange\<close> that is \<open>aptos\<close>
  (\<open>aptos_connect\<close>) or \<open>sui\<close> (\<open>sui_connect\<close>), in the order of the entries, and
  no other request. Every other namespace, \<open>cosmos\<close> and \<open>ethereum\<close> included, has
  no binding in \<open>connect\<close>: its branch fails with \<open>UnsupportedNamespace\<close>. The call
  is rejected exactly when some namespace branch is rejected, whatever the other
  branches do, and then with the rejection of one of the rejected branches; that is
  \<open>UnsupportedNamespace\<close> when the wallet rejects no request.
\<close>

theorem connect_requests_and_rejection:
  "issued (connect w ar) =
     concat (map (\<lambda>(ns, d). if ns = ''aptos'' then [Request AptosProvider ''aptos_connect'' NoParams]
                           else if ns = ''sui'' then [Request SuiProvider ''sui_connect'' NoParams]
                           else []) ar)
   \<and> (\<forall>(ns, d)\<in>set ar. ns \<noteq> ''aptos'' \<and> ns \<noteq> ''sui'' \<longrightarrow>
         connect_branch w (ns, d) = reject UnsupportedNamespace)
   \<and> (isl (outcome (connect w ar)) \<longleftrightarrow> (\<exists>entry\<in>set ar. isl (outcome (connect_branch w entry))))
   \<and> (\<forall>e. outcome (connect w ar) = Inl e \<longrightarrow>
         (\<exists>entry\<in>set ar. outcome (connect_branch w entry) = Inl e))
   \<and> ((\<exists>entry\<in>set ar. fst entry \<noteq> ''aptos'' \<and> fst entry \<noteq> ''sui'')
       \<and> (\<forall>entry\<in>set ar. fst entry = ''aptos'' \<or> fst entry = ''sui'' \<longrightarrow>
             \<not> isl (outcome (connect_branch w entry))) \<longrightarrow>
       outcome (connect w ar) = Inl UnsupportedNamespace)"
proof (intro conjI)
  have "(\<lambda>entry. issued (connect_branch w entry)) =
        (\<lambda>(ns, d). if ns = ''aptos'' then [Request AptosProvider ''aptos_connect'' NoParams]
                           else if ns = ''sui'' then [Request SuiProvider ''sui_connect'' NoParams]
                           else [])"
    by (rule ext) (simp add: issued_connect_branch split: prod.splits)
  then show "issued (connect w ar) =
     concat (map (\<lambda>(ns, d). if ns = ''aptos'' then [Request AptosProvider ''aptos_connect'' NoParams]
                           else if ns = ''sui'' then [Request SuiProvider ''sui_connect'' NoParams]
                           else []) ar)"
    by (simp add: issued_connect)
  show "\<forall>(ns, d)\<in>set ar. ns \<noteq> ''aptos'' \<and> ns \<noteq> ''sui'' \<longrightarrow>
         connect_branch w (ns, d) = reject UnsupportedNamespace"
    by (simp add: connect_branch_unbound split: prod.splits)
  show "isl (outcome (connect w ar)) \<longleftrightarrow> (\<exists>entry\<in>set ar. isl (outcome (connect_branch w entry)))"
    by (rule connect_rejected_iff)
  show "\<forall>e. outcome (connect w ar) = Inl e \<longrightarrow>
         (\<exists>entry\<in>set ar. outcome (connect_branch w entry) = Inl e)"
    by (intro allI impI) (rule connect_rejection_of_branch)
  show "(\<exists>entry\<in>set ar. fst entry \<noteq> ''aptos'' \<and> fst entry \<noteq> ''sui'')
       \<and> (\<forall>entry\<in>set ar. fst entry = ''aptos'' \<or> fst entry = ''sui'' \<longrightarrow>
             \<not> isl (outcome (connect_branch w entry))) \<longrightarrow>
       outcome (connect w ar) = Inl UnsupportedNamespace"
    by (intro impI, elim conjE) (rule connect_only_unbound_rejected)
qed

theorem connect_requests_and_rejection_witness:
  "issued (connect demo_wallet
      [(''aptos'', \<lparr>chainIds = None\<rparr>), (''cosmos'', \<lparr>chainIds = Some [''cosmoshub-4'']\<rparr>)])
     = [Request AptosProvider ''aptos_connect'' NoParams]
   \<and> outcome (connect_branch demo_wallet (''aptos'', \<lparr>chainIds = None\<rparr>)) = Inr ()
   \<and> connect_branch demo_wallet (''cosmos'', \<lparr>chainIds = Some [''cosmoshub-4'']\<rparr>)
     = reject UnsupportedNamespace
   \<and> outcome (connect demo_wallet
      [(''aptos'', \<lparr>chainIds = None\<rparr>), (''cosmos'', \<lparr>chainIds = Some [''cosmoshub-4'']\<rparr>)])
     = Inl UnsupportedNamespace"
proof -
  let ?ar = "[(''aptos'', \<lparr>chainIds = None\<rparr>), (''cosmos'', \<lparr>chainIds = Some [''cosmoshub-4'']\<rparr>)]"
  note all = connect_requests_and_rejection [of demo_wallet ?ar]
  have aptos: "outcome (connect_branch demo_wallet (''aptos'', \<lparr>chainIds = None\<rparr>)) = Inr ()"
    by (simp add: connect_branch_def outcome_await demo_wallet_def)
  have cosmos: "connect_branch demo_wallet (''cosmos'', \<lparr>chainIds = Some [''cosmoshub-4'']\<rparr>)
      = reject UnsupportedNamespace"
    by (simp add: connect_branch_unbound)
  from all have "issued (connect demo_wallet ?ar) =
     concat (map (\<lambda>(ns, d). if ns = ''aptos'' then [Request AptosProvider ''aptos_connect'' NoParams]
                           else if ns = ''sui'' then [Request SuiProvider ''sui_connect'' NoParams]
                           else []) ?ar)"
    by (rule conjunct1)
  then have requests: "issued (connect demo_wallet ?ar)
      = [Request AptosProvider ''aptos_connect'' NoParams]"
    by simp
  have quiet: "(\<exists>entry\<in>set ?ar. fst entry \<noteq> ''aptos'' \<and> fst entry \<noteq> ''sui'')
       \<and> (\<forall>entry\<in>set ?ar. fst entry = ''aptos'' \<or> fst entry = ''sui'' \<longrightarrow>
             \<not> isl (outcome (connect_branch demo_wallet entry)))"
    using aptos by simp
  from all have "(\<exists>entry\<in>set ?ar. fst entry \<noteq> ''aptos'' \<and> fst entry \<noteq> ''sui'')
       \<and> (\<forall>entry\<in>set ?ar. fst entry = ''aptos'' \<or> fst entry = ''sui'' \<longrightarrow>
             \<not> isl (outcome (connect_branch demo_wallet entry))) \<longrightarrow>
       outcome (connect demo_wallet ?ar) = Inl UnsupportedNamespace"
    by (elim conjE)
  from this quiet have "outcome (connect demo_wallet ?ar) = Inl UnsupportedNamespace"
    by (rule mp)
  with requests aptos cosmos show ?thesis by (intro conjI)
qed

text \<open>
  Claim C4 as stated fails: the grant-permission request is not issued for each
  namespace of \<open>authRange\<close>. For \<open>connect({cosmos: {chainIds: ["cosmoshub-4"]}})\<close>
  no request is issued at all, the cosmos branch is rejected and so is the call.
\<close>

theorem connect_cosmos_counterexample:
  "issued (connect demo_wallet [(''cosmos'', \<lparr>chainIds = Some [''cosmoshub-4'']\<rparr>)]) = []
   \<and> outcome (connect_branch demo_wallet (''cosmos'', \<lparr>chainIds = Some [''cosmoshub-4'']\<rparr>))
     = Inl UnsupportedNamespace
   \<and> outcome (connect demo_wallet [(''cosmos'', \<lparr>chainIds = Some [''cosmoshub-4'']\<rparr>)])
     = Inl UnsupportedNamespace"
  by (simp add: issued_connect outcome_connect connect_branch_def both_def
        UnsupportedNamespace_def)

section \<open>Properties of getAccounts\<close>

lemma outcome_getAccounts:
  "outcome (getAccounts imp w ar) =
     (case outcome (promise_all (map (getAccounts_branch imp w) ar)) of
        Inl e \<Rightarrow> Inl e | Inr accountsList \<Rightarrow> Inr (concat accountsList))"
  by (simp add: getAccounts_def outcome_await split: sum.splits)

lemma issued_getAccounts:
  "issued (getAccounts imp w ar) = concat (map (\<lambda>entry. issued (getAccounts_branch imp w entry)) ar)"
  by (simp add: getAccounts_def issued_await issued_promise_all comp_def split: sum.splits)

lemma getAccounts_branch_no_chainIds:
  "chainIds d = None \<Longrightarrow> getAccounts_branch imp w (''cosmos'', d) = reject MissingChainIds"
  by (simp add: getAccounts_branch_def MissingChainIds_def)

lemma getAccounts_branch_unmatched:
  "ns \<notin> {''cosmos'', ''ethereum'', ''aptos'', ''sui''} \<Longrightarrow>
   getAccounts_branch imp w (ns, d) = reject UnsupportedNamespace"
  by (simp add: getAccounts_branch_def UnsupportedNamespace_def)

lemma issued_getAccounts_branch_other:
  "ns \<noteq> ''cosmos'' \<Longrightarrow> r \<in> set (issued (getAccounts_branch imp w (ns, d))) \<Longrightarrow>
   provider_of r \<noteq> CosmosProvider"
  by (auto simp: getAccounts_branch_def issued_await split: sum.splits if_splits)

text \<open>
  A branch whose namespace is none of \<open>ethereum\<close>, \<open>aptos\<close>, \<open>sui\<close>, and that has no
  \<open>chainIds\<close> if it is \<open>cosmos\<close>, is one of the client's own rejections.
\<close>

lemma getAccounts_branch_own_rejection:
  assumes "fst entry \<notin> {''ethereum'', ''aptos'', ''sui''}"
    and "fst entry = ''cosmos'' \<longrightarrow> chainIds (snd entry) = None"
  shows "\<exists>e. getAccounts_branch imp w entry = reject e"
proof (cases entry)
  case (Pair ns d)
  show ?thesis
  proof (cases "ns = ''cosmos''")
    case True
    with assms(2) Pair have "chainIds d = None" by simp
    then have "getAccounts_branch imp w (''cosmos'', d) = reject MissingChainIds"
      by (rule getAccounts_branch_no_chainIds)
    with True Pair show ?thesis by blast
  next
    case False
    with assms(1) Pair have "ns \<notin> {''cosmos'', ''ethereum'', ''aptos'', ''sui''}" by simp
    then have "getAccounts_branch imp w (ns, d) = reject UnsupportedNamespace"
      by (rule getAccounts_branch_unmatched)
    with Pair show ?thesis by blast
  qed
qed

lemma getAccounts_rejection_of_branch:
  assumes "outcome (getAccounts imp w ar) = Inl e"
  shows "\<exists>entry\<in>set ar. outcome (getAccounts_branch imp w entry) = Inl e"
proof -
  from assms have "outcome (promise_all (map (getAccounts_branch imp w) ar)) = Inl e"
    by (simp add: outcome_getAccounts split: sum.splits)
  then obtain p where "p \<in> set (map (getAccounts_branch imp w) ar)" and "outcome p = Inl e"
    using promise_all_rejection_of_one by blast
  then show ?thesis by auto
qed

text \<open>
  When the wallet rejects no request and the entries hold no cosmos entry with
  \<open>chainIds\<close>, the rejected branches are the client's own, all at step 0, and the
  first of them in the order of the entries gives the rejection of the call.
\<close>

lemma getAccounts_first_own_rejection:
  assumes "\<forall>entry\<in>set pre. fst entry \<in> {''ethereum'', ''aptos'', ''sui''}"
    and "getAccounts_branch imp w x = reject e"
    and "\<forall>entry\<in>set pre \<union> set post. fst entry \<in> {''ethereum'', ''aptos'', ''sui''} \<longrightarrow>
           \<not> isl (outcome (getAccounts_branch imp w entry))"
    and "\<forall>entry\<in>set post. fst entry = ''cosmos'' \<longrightarrow> chainIds (snd entry) = None"
  shows "outcome (getAccounts imp w (pre @ x # post)) = Inl e"
proof -
  let ?b = "getAccounts_branch imp w"
  have "\<forall>q\<in>set (map ?b pre). \<not> isl (outcome q)"
    using assms(1,3) by auto
  moreover from assms(2) have "outcome (?b x) = Inl e" by simp
  moreover have "\<forall>q\<in>set (map ?b post). isl (outcome q) \<longrightarrow> settled (?b x) \<le> settled q"
  proof
    fix q
    assume "q \<in> set (map ?b post)"
    then obtain entry where entry: "entry \<in> set post" and q: "q = ?b entry" by auto
    show "isl (outcome q) \<longrightarrow> settled (?b x) \<le> settled q"
    proof
      assume rejected: "isl (outcome q)"
      with entry q assms(3) have "fst entry \<notin> {''ethereum'', ''aptos'', ''sui''}" by blast
      moreover from entry assms(4) have "fst entry = ''cosmos'' \<longrightarrow> chainIds (snd entry) = None"
        by blast
      ultimately obtain e' where "?b entry = reject e'"
        using getAccounts_branch_own_rejection by blast
      with q assms(2) show "settled (?b x) \<le> settled q" by simp
    qed
  qed
  ultimately have "outcome (promise_all (map ?b pre @ ?b x # map ?b post)) = Inl e"
    by (rule promise_all_first_rejection)
  then show ?thesis by (simp add: outcome_getAccounts)
qed

lemma getAccounts_no_chainIds_outcome:
  assumes "chainIds d = None" and "''cosmos'' \<notin> fst ` set pre" and "''cosmos'' \<notin> fst ` set post"
    and quiet: "\<forall>entry\<in>set pre \<union> set post. fst entry \<in> {''ethereum'', ''aptos'', ''sui''} \<longrightarrow>
           \<not> isl (outcome (getAccounts_branch imp w entry))"
  shows "outcome (getAccounts imp w (pre @ (''cosmos'', d) # post)) =
     Inl (if \<forall>ns\<in>fst ` set pre. ns \<in> {''ethereum'', ''aptos'', ''sui''}
          then MissingChainIds else UnsupportedNamespace)"
proof (cases "\<forall>ns\<in>fst ` set pre. ns \<in> {''ethereum'', ''aptos'', ''sui''}")
  case True
  then have known: "\<forall>entry\<in>set pre. fst entry \<in> {''ethereum'', ''aptos'', ''sui''}" by simp
  from assms(1) have own: "getAccounts_branch imp w (''cosmos'', d) = reject MissingChainIds"
    by (rule getAccounts_branch_no_chainIds)
  from assms(3) have none: "\<forall>entry\<in>set post. fst entry = ''cosmos'' \<longrightarrow> chainIds (snd entry) = None"
    by force
  from known own quiet none
  have "outcome (getAccounts imp w (pre @ (''cosmos'', d) # post)) = Inl MissingChainIds"
    by (rule getAccounts_first_own_rejection)
  then show ?thesis by (simp only: if_P [OF True])
next
  case False
  then have "\<exists>entry\<in>set pre. fst entry \<notin> {''ethereum'', ''aptos'', ''sui''}" by auto
  then obtain pre1 x pre2 where pre: "pre = pre1 @ x # pre2"
    and x: "fst x \<notin> {''ethereum'', ''aptos'', ''sui''}"
    and pre1: "\<forall>entry\<in>set pre1. \<not> fst entry \<notin> {''ethereum'', ''aptos'', ''sui''}"
    using split_list_first_prop [of pre "\<lambda>entry. fst entry \<notin> {''ethereum'', ''aptos'', ''sui''}"]
    by blast
  let ?post = "pre2 @ (''cosmos'', d) # post"
  from pre assms(2) have "fst x \<noteq> ''cosmos''" by auto
  with x have own: "getAccounts_branch imp w x = reject UnsupportedNamespace"
    using getAccounts_branch_unmatched [of "fst x" imp w "snd x"] by simp
  from pre1 have known: "\<forall>entry\<in>set pre1. fst entry \<in> {''ethereum'', ''aptos'', ''sui''}" by simp
  from quiet pre
  have quiet': "\<forall>entry\<in>set pre1 \<union> set ?post. fst entry \<in> {''ethereum'', ''aptos'', ''sui''} \<longrightarrow>
           \<not> isl (outcome (getAccounts_branch imp w entry))"
    by auto
  from pre assms(1,2,3)
  have none: "\<forall>entry\<in>set ?post. fst entry = ''cosmos'' \<longrightarrow> chainIds (snd entry) = None"
    by force
  from known own quiet' none
  have "outcome (getAccounts imp w (pre1 @ x # ?post)) = Inl UnsupportedNamespace"
    by (rule getAccounts_first_own_rejection)
  moreover from pre have "pre1 @ x # ?post = pre @ (''cosmos'', d) # post"
    by simp
  ultimately have "outcome (getAccounts imp w (pre @ (''cosmos'', d) # post))
      = Inl UnsupportedNamespace"
    by (simp only:)
  then show ?thesis by (simp only: if_not_P [OF False])
qed

lemma fst_not_key:
  "entry \<in> set pre \<union> set post \<Longrightarrow> c \<notin> fst ` set pre \<Longrightarrow> c \<notin> fst ` set post \<Longrightarrow> fst entry \<noteq> c"
  by blast

lemma getAccounts_no_cosmos_request:
  assumes "chainIds d = None" and "''cosmos'' \<notin> fst ` set pre" and "''cosmos'' \<notin> fst ` set post"
    and "r \<in> set (issued (getAccounts imp w (pre @ (''cosmos'', d) # post)))"
  shows "provider_of r \<noteq> CosmosProvider"
proof -
  from assms(1) have "issued (getAccounts_branch imp w (''cosmos'', d)) = []"
    by (simp add: getAccounts_branch_no_chainIds)
  with assms(4) obtain entry where entry: "entry \<in> set pre \<union> set post"
    and r: "r \<in> set (issued (getAccounts_branch imp w entry))"
    by (auto simp: issued_getAccounts)
  from entry assms(2,3) have "fst entry \<noteq> ''cosmos''" by (rule fst_not_key)
  with r show ?thesis using issued_getAccounts_branch_other [of "fst entry" r imp w "snd entry"] by simp
qed

lemma getAccounts_no_chainIds_rejections:
  assumes "chainIds d = None"
    and "outcome (getAccounts imp w (pre @ (''cosmos'', d) # post)) = Inl e"
  shows "e = MissingChainIds
     \<or> (\<exists>entry\<in>set pre \<union> set post. outcome (getAccounts_branch imp w entry) = Inl e)"
proof -
  from assms(2) obtain entry where entry: "entry \<in> set (pre @ (''cosmos'', d) # post)"
    and e: "outcome (getAccounts_branch imp w entry) = Inl e"
    using getAccounts_rejection_of_branch by blast
  show ?thesis
  proof (cases "entry = (''cosmos'', d)")
    case True
    with assms(1) e have "e = MissingChainIds" by (simp add: getAccounts_branch_no_chainIds)
    then show ?thesis by simp
  next
    case False
    with entry have "entry \<in> set pre \<union> set post" by auto
    with e show ?thesis by blast
  qed
qed

lemma getAccounts_no_chainIds_rejected:
  assumes "chainIds d = None"
  shows "isl (outcome (getAccounts imp w (pre @ (''cosmos'', d) # post)))"
proof -
  from assms have "isl (outcome (getAccounts_branch imp w (''cosmos'', d)))"
    by (simp add: getAccounts_branch_no_chainIds)
  then have "isl (outcome (promise_all (map (getAccounts_branch imp w) (pre @ (''cosmos'', d) # post))))"
    by (simp add: promise_all_rejected_iff)
  then show ?thesis
    by (cases "outcome (promise_all (map (getAccounts_branch imp w) (pre @ (''cosmos'', d) # post)))")
       (simp_all add: outcome_getAccounts)
qed

text \<open>
  Claim C6, as the code has it. When the cosmos entry of \<open>authRange\<close> has no
  \<open>chainIds\<close>, the cosmos branch fails with \<open>MissingChainIds\<close>, \<open>getAccounts\<close> is
  rejected and issues no request to the cosmos provider. The rejection of the call is
  \<open>MissingChainIds\<close> or the rejection of another namespace branch. When the wallet
  rejects no request, it is \<open>MissingChainIds\<close> if every namespace listed before
  \<open>cosmos\<close> is one of \<open>ethereum\<close>, \<open>aptos\<close>, \<open>sui\<close>, and \<open>UnsupportedNamespace\<close>
  if a namespace without a binding is listed before \<open>cosmos\<close>. The keys of an object
  are distinct, so \<open>cosmos\<close> occurs once among the entries.
\<close>

theorem getAccounts_missing_chainIds:
  assumes "chainIds d = None" and "''cosmos'' \<notin> fst ` set pre" and "''cosmos'' \<notin> fst ` set post"
  shows "getAccounts_branch imp w (''cosmos'', d) = reject MissingChainIds
         \<and> isl (outcome (getAccounts imp w (pre @ (''cosmos'', d) # post)))
         \<and> (\<forall>r\<in>set (issued (getAccounts imp w (pre @ (''cosmos'', d) # post))).
               provider_of r \<noteq> CosmosProvider)
         \<and> (\<forall>e. outcome (getAccounts imp w (pre @ (''cosmos'', d) # post)) = Inl e \<longrightarrow>
               e = MissingChainIds
               \<or> (\<exists>entry\<in>set pre \<union> set post. outcome (getAccounts_branch imp w entry) = Inl e))
         \<and> ((\<forall>entry\<in>set pre \<union> set post. fst entry \<in> {''ethereum'', ''aptos'', ''sui''} \<longrightarrow>
                 \<not> isl (outcome (getAccounts_branch imp w entry))) \<longrightarrow>
             outcome (getAccounts imp w (pre @ (''cosmos'', d) # post)) =
               Inl (if \<forall>ns\<in>fst ` set pre. ns \<in> {''ethereum'', ''aptos'', ''sui''}
                    then MissingChainIds else UnsupportedNamespace))"
proof -
  from assms(1) have "getAccounts_branch imp w (''cosmos'', d) = reject MissingChainIds"
    by (rule getAccounts_branch_no_chainIds)
  moreover from assms(1) have "isl (outcome (getAccounts imp w (pre @ (''cosmos'', d) # post)))"
    by (rule getAccounts_no_chainIds_rejected)
  moreover have "\<forall>r\<in>set (issued (getAccounts imp w (pre @ (''cosmos'', d) # post))).
               provider_of r \<noteq> CosmosProvider"
    using assms getAccounts_no_cosmos_request by blast
  moreover have "\<forall>e. outcome (getAccounts imp w (pre @ (''cosmos'', d) # post)) = Inl e \<longrightarrow>
               e = MissingChainIds
               \<or> (\<exists>entry\<in>set pre \<union> set post. outcome (getAccounts_branch imp w entry) = Inl e)"
    using assms(1) getAccounts_no_chainIds_rejections by blast
  moreover have "(\<forall>entry\<in>set pre \<union> set post. fst entry \<in> {''ethereum'', ''aptos'', ''sui''} \<longrightarrow>
                 \<not> isl (outcome (getAccounts_branch imp w entry))) \<longrightarrow>
             outcome (getAccounts imp w (pre @ (''cosmos'', d) # post)) =
               Inl (if \<forall>ns\<in>fst ` set pre. ns \<in> {''ethereum'', ''aptos'', ''sui''}
                    then MissingChainIds else UnsupportedNamespace)"
    using assms getAccounts_no_chainIds_outcome by blast
  ultimately show ?thesis by blast
qed

theorem getAccounts_missing_chainIds_witness:
  "chainIds \<lparr>chainIds = None\<rparr> = None
   \<and> ''cosmos'' \<notin> fst ` set [(''sui'', \<lparr>chainIds = None\<rparr>)]
   \<and> ''cosmos'' \<notin> fst ` set [(''unknownNs'', \<lparr>chainIds = None\<rparr>)]
   \<and> \<not> isl (outcome (getAccounts_branch demo_imported demo_wallet (''sui'', \<lparr>chainIds = None\<rparr>)))
   \<and> outcome (getAccounts demo_imported demo_wallet
        ([(''sui'', \<lparr>chainIds = None\<rparr>)] @ (''cosmos'', \<lparr>chainIds = None\<rparr>)
           # [(''unknownNs'', \<lparr>chainIds = None\<rparr>)])) = Inl MissingChainIds
   \<and> issued (getAccounts demo_imported demo_wallet
        ([(''sui'', \<lparr>chainIds = None\<rparr>)] @ (''cosmos'', \<lparr>chainIds = None\<rparr>)
           # [(''unknownNs'', \<lparr>chainIds = None\<rparr>)]))
       = [Request SuiProvider ''sui_getAccounts'' NoParams,
          Request SuiProvider ''sui_getPublicKey'' NoParams]"
  using getAccounts_missing_chainIds
    [of "\<lparr>chainIds = None\<rparr>" "[(''sui'', \<lparr>chainIds = None\<rparr>)]"
        "[(''unknownNs'', \<lparr>chainIds = None\<rparr>)]" demo_imported demo_wallet]
  by (simp add: issued_getAccounts getAccounts_branch_def issued_await outcome_await
        demo_wallet_def)

text \<open>
  Claim C6 as stated fails: with an unmatched namespace listed before a cosmos entry that
  has no \<open>chainIds\<close>, both branches are the client's own rejections, no request is
  issued, and \<open>Promise.all\<close> takes the first, so \<open>getAccounts\<close> fails with
  \<open>UnsupportedNamespace\<close>, not with \<open>MissingChainIds\<close>.
\<close>

theorem getAccounts_unmatched_first_counterexample:
  "outcome (getAccounts demo_imported demo_wallet
      [(''unknownNs'', \<lparr>chainIds = None\<rparr>), (''cosmos'', \<lparr>chainIds = None\<rparr>)])
     = Inl UnsupportedNamespace
   \<and> UnsupportedNamespace \<noteq> MissingChainIds"
  by (simp add: outcome_getAccounts getAccounts_branch_def both_def reject_def resolve_def
        UnsupportedNamespace_def MissingChainIds_def)

lemma cosmos_request_account_Inr:
  "outcome (cosmos_request_account imp w ns c) = Inr a \<longleftrightarrow>
     (\<exists>k. snd (account_reply w (Request CosmosProvider ''cos_requestAccount'' (ChainNameParams c))) = Inr k
          \<and> a = cosmos_account imp c ns k)"
  by (auto simp: cosmos_request_account_def outcome_await split: sum.splits)

lemma getAccounts_branch_cosmos_Inr:
  assumes "chainIds d = Some cs"
  shows "outcome (getAccounts_branch imp w (''cosmos'', d)) = Inr l \<longleftrightarrow>
     list_all2 (\<lambda>c a. \<exists>k. snd (account_reply w (Request CosmosProvider ''cos_requestAccount''
                                 (ChainNameParams c))) = Inr k
                         \<and> a = cosmos_account imp c ''cosmos'' k) cs l"
  using assms
  by (simp add: getAccounts_branch_def promise_all_Inr list_all2_map1 cosmos_request_account_Inr)

lemma getAccounts_branch_other_namespace:
  assumes "ns \<noteq> ''cosmos''" and "outcome (getAccounts_branch imp w (ns, d)) = Inr l"
  shows "\<forall>a\<in>set l. namespace a = ns"
  using assms
  by (auto simp: getAccounts_branch_def outcome_await address_account_def keyed_account_def
           split: sum.splits if_splits)

lemma no_cosmos_accounts:
  assumes "list_all2 (\<lambda>entry l. outcome (getAccounts_branch imp w entry) = Inr l) es ls"
    and "''cosmos'' \<notin> fst ` set es"
  shows "filter (\<lambda>a. namespace a = ''cosmos'') (concat ls) = []"
  using assms
proof (induction rule: list_all2_induct)
  case Nil
  then show ?case by simp
next
  case (Cons entry es l ls)
  from Cons.prems have ne: "fst entry \<noteq> ''cosmos''" by auto
  with Cons.hyps(1) have "\<forall>a\<in>set l. namespace a = fst entry"
    using getAccounts_branch_other_namespace [of "fst entry" imp w "snd entry" l] by simp
  with ne have "filter (\<lambda>a. namespace a = ''cosmos'') l = []" by (simp add: filter_empty_conv)
  moreover from Cons have "filter (\<lambda>a. namespace a = ''cosmos'') (concat ls) = []" by simp
  ultimately show ?case by simp
qed

lemma cosmos_accounts_all:
  assumes "list_all2 (\<lambda>c a. \<exists>k. P c k \<and> a = cosmos_account imp c ''cosmos'' k) cs l"
  shows "filter (\<lambda>a. namespace a = ''cosmos'') l = l"
    and "map chainId l = map Some cs"
    and "\<forall>a\<in>set l. encoding (address a) = ''bech32'' \<and> map_option encoding (publicKey a) = Some ''hex''"
  using assms
  by (induction rule: list_all2_induct) (auto simp: cosmos_account_def)

lemma getAccounts_Inr:
  "outcome (getAccounts imp w ar) = Inr accs \<longleftrightarrow>
     (\<exists>ls. list_all2 (\<lambda>entry l. outcome (getAccounts_branch imp w entry) = Inr l) ar ls
           \<and> accs = concat ls)"
proof -
  have "outcome (getAccounts imp w ar) = Inr accs \<longleftrightarrow>
     (\<exists>ls. outcome (promise_all (map (getAccounts_branch imp w) ar)) = Inr ls \<and> accs = concat ls)"
    by (cases "outcome (promise_all (map (getAccounts_branch imp w) ar))")
       (auto simp: outcome_getAccounts)
  then show ?thesis by (simp add: promise_all_Inr list_all2_map1)
qed

lemma getAccounts_cosmos_part:
  assumes "chainIds d = Some cs" and "''cosmos'' \<notin> fst ` set pre" and "''cosmos'' \<notin> fst ` set post"
    and "outcome (getAccounts imp w (pre @ (''cosmos'', d) # post)) = Inr accs"
  shows "list_all2 (\<lambda>c a. \<exists>k. snd (account_reply w (Request CosmosProvider ''cos_requestAccount''
                                 (ChainNameParams c))) = Inr k
                         \<and> a = cosmos_account imp c ''cosmos'' k) cs
           (filter (\<lambda>a. namespace a = ''cosmos'') accs)"
proof -
  let ?R = "\<lambda>entry l. outcome (getAccounts_branch imp w entry) = Inr l"
  let ?C = "\<lambda>a. namespace a = ''cosmos''"
  from assms(4) obtain ls where ls: "list_all2 ?R (pre @ (''cosmos'', d) # post) ls"
    and accs: "accs = concat ls"
    by (auto simp: getAccounts_Inr)
  from ls obtain ls1 rest where "ls = ls1 @ rest" and l1: "list_all2 ?R pre ls1"
    and "list_all2 ?R ((''cosmos'', d) # post) rest"
    by (auto simp: list_all2_append1)
  then obtain l ls2 where split: "ls = ls1 @ l # ls2" and l: "?R (''cosmos'', d) l"
    and l2: "list_all2 ?R post ls2"
    by (auto simp: list_all2_Cons1)
  from l assms(1) have all: "list_all2 (\<lambda>c a. \<exists>k. snd (account_reply w (Request CosmosProvider ''cos_requestAccount''
                                 (ChainNameParams c))) = Inr k
                         \<and> a = cosmos_account imp c ''cosmos'' k) cs l"
    by (simp add: getAccounts_branch_cosmos_Inr)
  then have "filter ?C l = l" by (rule cosmos_accounts_all(1))
  moreover from l1 assms(2) have "filter ?C (concat ls1) = []" by (rule no_cosmos_accounts)
  moreover from l2 assms(3) have "filter ?C (concat ls2) = []" by (rule no_cosmos_accounts)
  ultimately have "filter ?C accs = l" using accs split by simp
  with all show ?thesis by simp
qed

lemma getAccounts_returns:
  assumes "\<forall>entry\<in>set ar. \<not> isl (outcome (getAccounts_branch imp w entry))"
  shows "\<exists>accs. outcome (getAccounts imp w ar) = Inr accs"
proof -
  from assms have "\<not> isl (outcome (promise_all (map (getAccounts_branch imp w) ar)))"
    by (simp add: promise_all_rejected_iff)
  then show ?thesis by (simp add: outcome_getAccounts isl_def split: sum.splits)
qed

text \<open>
  Claim C3: when the cosmos entry of \<open>authRange\<close> carries the list \<open>chainIds\<close>, the
  accounts that \<open>getAccounts\<close> returns for the cosmos namespace are exactly one per
  chain ID, in the order of the list, each the normalised answer of the wallet for that
  chain ID, with \<open>address.encoding\<close> equal to \<open>bech32\<close> and \<open>publicKey.encoding\<close>
  equal to \<open>hex\<close>. And \<open>getAccounts\<close> does return when no namespace branch is
  rejected. The keys of an object are distinct, so \<open>cosmos\<close> occurs once among the
  entries.
\<close>

theorem getAccounts_one_account_per_chainId:
  assumes "chainIds d = Some cs" and "''cosmos'' \<notin> fst ` set pre" and "''cosmos'' \<notin> fst ` set post"
  shows "(\<forall>accs. outcome (getAccounts imp w (pre @ (''cosmos'', d) # post)) = Inr accs \<longrightarrow>
            list_all2 (\<lambda>c a. \<exists>k. snd (account_reply w (Request CosmosProvider ''cos_requestAccount''
                                        (ChainNameParams c))) = Inr k
                                \<and> a = cosmos_account imp c ''cosmos'' k) cs
              (filter (\<lambda>a. namespace a = ''cosmos'') accs)
            \<and> map chainId (filter (\<lambda>a. namespace a = ''cosmos'') accs) = map Some cs
            \<and> (\<forall>a\<in>set (filter (\<lambda>a. namespace a = ''cosmos'') accs).
                  encoding (address a) = ''bech32''
                  \<and> map_option encoding (publicKey a) = Some ''hex''))
         \<and> ((\<forall>entry\<in>set (pre @ (''cosmos'', d) # post).
                 \<not> isl (outcome (getAccounts_branch imp w entry))) \<longrightarrow>
              (\<exists>accs. outcome (getAccounts imp w (pre @ (''cosmos'', d) # post)) = Inr accs))"
proof -
  have "list_all2 (\<lambda>c a. \<exists>k. snd (account_reply w (Request CosmosProvider ''cos_requestAccount''
                                        (ChainNameParams c))) = Inr k
                                \<and> a = cosmos_account imp c ''cosmos'' k) cs
              (filter (\<lambda>a. namespace a = ''cosmos'') accs)
            \<and> map chainId (filter (\<lambda>a. namespace a = ''cosmos'') accs) = map Some cs
            \<and> (\<forall>a\<in>set (filter (\<lambda>a. namespace a = ''cosmos'') accs).
                  encoding (address a) = ''bech32''
                  \<and> map_option encoding (publicKey a) = Some ''hex'')"
    if "outcome (getAccounts imp w (pre @ (''cosmos'', d) # post)) = Inr accs" for accs
  proof -
    from assms that have part: "list_all2 (\<lambda>c a. \<exists>k. snd (account_reply w (Request CosmosProvider ''cos_requestAccount''
                                        (ChainNameParams c))) = Inr k
                                \<and> a = cosmos_account imp c ''cosmos'' k) cs
              (filter (\<lambda>a. namespace a = ''cosmos'') accs)"
      by (rule getAccounts_cosmos_part)
    from part have "map chainId (filter (\<lambda>a. namespace a = ''cosmos'') accs) = map Some cs"
      by (rule cosmos_accounts_all(2))
    moreover from part have "\<forall>a\<in>set (filter (\<lambda>a. namespace a = ''cosmos'') accs).
                  encoding (address a) = ''bech32''
                  \<and> map_option encoding (publicKey a) = Some ''hex''"
      by (rule cosmos_accounts_all(3))
    ultimately show ?thesis using part by blast
  qed
  then show ?thesis using getAccounts_returns by blast
qed

theorem getAccounts_one_account_per_chainId_witness:
  "chainIds \<lparr>chainIds = Some [''cosmoshub-4'', ''osmosis-1'']\<rparr> = Some [''cosmoshub-4'', ''osmosis-1'']
   \<and> ''cosmos'' \<notin> fst ` set [(''ethereum'', \<lparr>chainIds = None\<rparr>)]
   \<and> ''cosmos'' \<notin> fst ` set ([] :: authRange)
   \<and> outcome (getAccounts demo_imported demo_wallet
        ([(''ethereum'', \<lparr>chainIds = None\<rparr>)]
           @ (''cosmos'', \<lparr>chainIds = Some [''cosmoshub-4'', ''osmosis-1'']\<rparr>) # []))
      = Inr [address_account ''ethereum'' ''0xabc'',
             cosmos_account demo_imported ''cosmoshub-4'' ''cosmos'' (demo_key ''cosmoshub-4''),
             cosmos_account demo_imported ''osmosis-1'' ''cosmos'' (demo_key ''osmosis-1'')]
   \<and> map chainId (filter (\<lambda>a. namespace a = ''cosmos'')
         [address_account ''ethereum'' ''0xabc'',
          cosmos_account demo_imported ''cosmoshub-4'' ''cosmos'' (demo_key ''cosmoshub-4''),
          cosmos_account demo_imported ''osmosis-1'' ''cosmos'' (demo_key ''osmosis-1'')])
      = map Some [''cosmoshub-4'', ''osmosis-1'']"
proof -
  have run: "outcome (getAccounts demo_imported demo_wallet
        ([(''ethereum'', \<lparr>chainIds = None\<rparr>)]
           @ (''cosmos'', \<lparr>chainIds = Some [''cosmoshub-4'', ''osmosis-1'']\<rparr>) # []))
      = Inr [address_account ''ethereum'' ''0xabc'',
             cosmos_account demo_imported ''cosmoshub-4'' ''cosmos'' (demo_key ''cosmoshub-4''),
             cosmos_account demo_imported ''osmosis-1'' ''cosmos'' (demo_key ''osmosis-1'')]"
    by (simp add: outcome_getAccounts getAccounts_branch_def cosmos_request_account_def
          outcome_await both_def demo_wallet_def)
  with getAccounts_one_account_per_chainId
    [of "\<lparr>chainIds = Some [''cosmoshub-4'', ''osmosis-1'']\<rparr>" "[''cosmoshub-4'', ''osmosis-1'']"
        "[(''ethereum'', \<lparr>chainIds = None\<rparr>)]" "[]" demo_imported demo_wallet]
  show ?thesis by simp
qed

section \<open>Properties of sign\<close>

lemma provided_Some: "c \<noteq> [] \<Longrightarrow> provided (Some c) = Some c"
  by (simp add: provided_def)

lemma provided_None: "provided None = None"
  by (simp add: provided_def)

lemma sign_cosmos_string:
  "c \<noteq> [] \<Longrightarrow> sign imp w ''cosmos'' (StringDoc m) a (Some c) options =
     await (request (sign_message_reply w)
              (Request CosmosProvider ''cos_signMessage'' (SignMessageParams c a m)))
       (\<lambda>r. resolve \<lparr>sig_publicKey = Some (msg_pub_key r), signature_value = msg_signature r,
                      signedDoc = StringDoc m\<rparr>)"
  by (simp add: sign_def provided_Some)

lemma sign_cosmos_structured:
  "c \<noteq> [] \<Longrightarrow> sign imp w ''cosmos'' (StructuredDoc d) a (Some c) options =
     await (request (sign_doc_reply w)
              (Request CosmosProvider (sign_doc_method imp d)
                 (SignDocParams c d (isEditMemo options) (isEditFee options) (gasRate_of options))))
       (\<lambda>r. resolve \<lparr>sig_publicKey = Some (pub_key r), signature_value = signature r,
                      signedDoc = StructuredDoc (signed_doc r)\<rparr>)"
  by (simp add: sign_def provided_Some)

text \<open>
  Claim C7: \<open>sign("cosmos", doc, addr, undefined)\<close> fails with \<open>MissingChainId\<close>
  for every document, signer address and options, within the call itself and with no
  native request issued.
\<close>

theorem sign_without_chainId:
  "outcome (sign imp w ''cosmos'' doc signerAddress None options) = Inl MissingChainId
   \<and> issued (sign imp w ''cosmos'' doc signerAddress None options) = []
   \<and> settled (sign imp w ''cosmos'' doc signerAddress None options) = 0"
  by (simp add: sign_def provided_None MissingChainId_def)

text \<open>
  Claim C8: for a string document and a provided chain ID (one that passes the test
  \<open>!chainId\<close>, so not the empty string), \<open>sign("cosmos", doc, addr, chainId)\<close> issues
  the one request \<open>cos_signMessage\<close>; for every answer of the wallet it returns a
  \<open>Signature\<close> whose \<open>signedDoc\<close> is the input string and whose
  \<open>signature.value\<close> is the \<open>signature\<close> field of the answer, and it returns
  nothing else.
\<close>

theorem sign_message_signature:
  assumes "c \<noteq> []"
  shows "issued (sign imp w ''cosmos'' (StringDoc m) a (Some c) options)
           = [Request CosmosProvider ''cos_signMessage'' (SignMessageParams c a m)]
   \<and> (\<forall>r. snd (sign_message_reply w
                  (Request CosmosProvider ''cos_signMessage'' (SignMessageParams c a m))) = Inr r \<longrightarrow>
          (\<exists>sg. outcome (sign imp w ''cosmos'' (StringDoc m) a (Some c) options) = Inr sg
                \<and> signedDoc sg = StringDoc m \<and> signature_value sg = msg_signature r))
   \<and> (\<forall>sg. outcome (sign imp w ''cosmos'' (StringDoc m) a (Some c) options) = Inr sg \<longrightarrow>
          signedDoc sg = StringDoc m
          \<and> (\<exists>r. snd (sign_message_reply w
                  (Request CosmosProvider ''cos_signMessage'' (SignMessageParams c a m))) = Inr r
                \<and> signature_value sg = msg_signature r))"
  using assms
  by (auto simp: sign_cosmos_string outcome_await issued_await split: sum.splits)

theorem sign_message_signature_witness:
  "''cosmoshub-4'' \<noteq> []
   \<and> issued (sign demo_imported demo_wallet ''cosmos'' (StringDoc ''hello'') ''cosmos1abc''
              (Some ''cosmoshub-4'') None)
      = [Request CosmosProvider ''cos_signMessage''
           (SignMessageParams ''cosmoshub-4'' ''cosmos1abc'' ''hello'')]
   \<and> snd (sign_message_reply demo_wallet
            (Request CosmosProvider ''cos_signMessage''
               (SignMessageParams ''cosmoshub-4'' ''cosmos1abc'' ''hello'')))
      = Inr \<lparr>msg_pub_key = demo_pub_key, msg_signature = ''c2ln''\<rparr>
   \<and> (\<exists>sg. outcome (sign demo_imported demo_wallet ''cosmos'' (StringDoc ''hello'') ''cosmos1abc''
                       (Some ''cosmoshub-4'') None) = Inr sg
          \<and> signedDoc sg = StringDoc ''hello'' \<and> signature_value sg = ''c2ln'')"
  using sign_message_signature
    [of "''cosmoshub-4''" demo_imported demo_wallet "''hello''" "''cosmos1abc''" None]
  by (simp add: demo_wallet_def)

text \<open>
  Claim C5: for a document that is not a string and a provided chain ID,
  \<open>sign("cosmos", doc, addr, chainId)\<close> issues exactly one native request; its method
  is \<open>cos_signDirect\<close> exactly when \<open>isCosmosDirectDoc(doc)\<close> holds and
  \<open>cos_signAmino\<close> exactly when it does not. The \<open>signedDoc\<close> of the returned
  \<open>Signature\<close> is the \<open>signed_doc\<close> field of the wallet's answer, whatever the
  input document was.
\<close>

theorem sign_structured_doc:
  assumes "c \<noteq> []"
  shows "issued (sign imp w ''cosmos'' (StructuredDoc d) a (Some c) options)
           = [Request CosmosProvider
                (if isCosmosDirectDoc imp d then ''cos_signDirect'' else ''cos_signAmino'')
                (SignDocParams c d (isEditMemo options) (isEditFee options) (gasRate_of options))]
   \<and> (map method_of (issued (sign imp w ''cosmos'' (StructuredDoc d) a (Some c) options))
          = [''cos_signDirect''] \<longleftrightarrow> isCosmosDirectDoc imp d)
   \<and> (map method_of (issued (sign imp w ''cosmos'' (StructuredDoc d) a (Some c) options))
          = [''cos_signAmino''] \<longleftrightarrow> \<not> isCosmosDirectDoc imp d)
   \<and> (\<forall>r. snd (sign_doc_reply w
                  (Request CosmosProvider
                     (if isCosmosDirectDoc imp d then ''cos_signDirect'' else ''cos_signAmino'')
                     (SignDocParams c d (isEditMemo options) (isEditFee options)
                        (gasRate_of options)))) = Inr r \<longrightarrow>
          (\<exists>sg. outcome (sign imp w ''cosmos'' (StructuredDoc d) a (Some c) options) = Inr sg
                \<and> signedDoc sg = StructuredDoc (signed_doc r)))
   \<and> (\<forall>sg. outcome (sign imp w ''cosmos'' (StructuredDoc d) a (Some c) options) = Inr sg \<longrightarrow>
          (\<exists>r. snd (sign_doc_reply w
                  (Request CosmosProvider
                     (if isCosmosDirectDoc imp d then ''cos_signDirect'' else ''cos_signAmino'')
                     (SignDocParams c d (isEditMemo options) (isEditFee options)
                        (gasRate_of options)))) = Inr r
                \<and> signedDoc sg = StructuredDoc (signed_doc r)))"
  using assms
  by (auto simp: sign_cosmos_structured sign_doc_method_def outcome_await issued_await
           split: sum.splits)

theorem sign_structured_doc_witness:
  "''cosmoshub-4'' \<noteq> [] \<and> isCosmosDirectDoc demo_imported 1
   \<and> issued (sign demo_imported demo_wallet ''cosmos'' (StructuredDoc 1) ''cosmos1abc''
              (Some ''cosmoshub-4'') (Some \<lparr>memo = Some True, fee = None, gasRate = None\<rparr>))
      = [Request CosmosProvider ''cos_signDirect''
           (SignDocParams ''cosmoshub-4'' 1 True False None)]
   \<and> (\<exists>sg. outcome (sign demo_imported demo_wallet ''cosmos'' (StructuredDoc 1) ''cosmos1abc''
              (Some ''cosmoshub-4'') (Some \<lparr>memo = Some True, fee = None, gasRate = None\<rparr>))
            = Inr sg
          \<and> signedDoc sg = StructuredDoc 2 \<and> signedDoc sg \<noteq> StructuredDoc 1)"
  using sign_structured_doc
    [of "''cosmoshub-4''" demo_imported demo_wallet 1 "''cosmos1abc''"
        "Some \<lparr>memo = Some True, fee = None, gasRate = None\<rparr>"]
  by (auto simp: demo_wallet_def demo_imported_def isEditMemo_def isEditFee_def gasRate_of_def)

section \<open>Properties of verify\<close>

text \<open>
  Claim C9: \<open>verify("cosmos", doc, signature, signerAddress, undefined)\<close> fails with
  the rejection for a missing chain ID, whatever the document (string or not) and the
  signature are, within the call itself and with no native request issued.
\<close>

theorem verify_without_chainId:
  "outcome (verify w ''cosmos'' doc sg signerAddress None) = Inl MissingChainId
   \<and> issued (verify w ''cosmos'' doc sg signerAddress None) = []
   \<and> settled (verify w ''cosmos'' doc sg signerAddress None) = 0"
  by (simp add: verify_def provided_None MissingChainId_def)

text \<open>
  Claim C2, as the code has it: \<open>verify\<close> succeeds only for the namespace \<open>cosmos\<close>
  with a string document (and a provided chain ID). A namespace other than \<open>cosmos\<close>
  fails with \<open>UnsupportedNamespace\<close>, \<open>cosmos\<close> without a chain ID fails with
  \<open>MissingChainId\<close>, and \<open>cosmos\<close> with a chain ID and a document that is not a
  string fails with \<open>UnsupportedOperation\<close>.
\<close>

theorem verify_outcomes:
  "((\<exists>v. outcome (verify w ns doc sg a cid) = Inr v) \<longrightarrow>
       ns = ''cosmos'' \<and> (\<exists>m. doc = StringDoc m) \<and> provided cid \<noteq> None)
   \<and> (ns \<noteq> ''cosmos'' \<longrightarrow> verify w ns doc sg a cid = reject UnsupportedNamespace)
   \<and> (ns = ''cosmos'' \<and> provided cid = None \<longrightarrow> verify w ns doc sg a cid = reject MissingChainId)
   \<and> (ns = ''cosmos'' \<and> provided cid \<noteq> None \<and> (\<exists>d. doc = StructuredDoc d) \<longrightarrow>
         verify w ns doc sg a cid = reject UnsupportedOperation)"
  by (auto simp: verify_def UnsupportedNamespace_def MissingChainId_def UnsupportedOperation_def
           split: option.splits doc.splits)

theorem verify_outcomes_witness:
  "outcome (verify demo_wallet ''cosmos'' (StringDoc ''hello'')
      \<lparr>sig_publicKey = Some demo_pub_key, signature_value = ''c2ln'', signedDoc = StringDoc ''hello''\<rparr>
      ''cosmos1abc'' (Some ''cosmoshub-4'')) = Inr True
   \<and> provided (Some ''cosmoshub-4'') \<noteq> None
   \<and> ''ethereum'' \<noteq> ''cosmos''
   \<and> verify demo_wallet ''ethereum'' (StringDoc ''hello'')
      \<lparr>sig_publicKey = Some demo_pub_key, signature_value = ''c2ln'', signedDoc = StringDoc ''hello''\<rparr>
      ''0xabc'' (Some ''1'') = reject UnsupportedNamespace
   \<and> provided (None :: string option) = None
   \<and> verify demo_wallet ''cosmos'' (StructuredDoc 1)
      \<lparr>sig_publicKey = Some demo_pub_key, signature_value = ''c2ln'', signedDoc = StructuredDoc 1\<rparr>
      ''cosmos1abc'' None = reject MissingChainId
   \<and> verify demo_wallet ''cosmos'' (StructuredDoc 1)
      \<lparr>sig_publicKey = Some demo_pub_key, signature_value = ''c2ln'', signedDoc = StructuredDoc 1\<rparr>
      ''cosmos1abc'' (Some ''cosmoshub-4'') = reject UnsupportedOperation"
  using verify_outcomes [of demo_wallet "''ethereum''" "StringDoc ''hello''"
      "\<lparr>sig_publicKey = Some demo_pub_key, signature_value = ''c2ln'', signedDoc = StringDoc ''hello''\<rparr>"
      "''0xabc''" "Some ''1''"]
    verify_outcomes [of demo_wallet "''cosmos''" "StructuredDoc 1"
      "\<lparr>sig_publicKey = Some demo_pub_key, signature_value = ''c2ln'', signedDoc = StructuredDoc 1\<rparr>"
      "''cosmos1abc''" None]
    verify_outcomes [of demo_wallet "''cosmos''" "StructuredDoc 1"
      "\<lparr>sig_publicKey = Some demo_pub_key, signature_value = ''c2ln'', signedDoc = StructuredDoc 1\<rparr>"
      "''cosmos1abc''" "Some ''cosmoshub-4''"]
  by (simp add: provided_def verify_def outcome_await demo_wallet_def)

text \<open>
  Claim C2 as stated fails: for a namespace other than \<open>cosmos\<close> the rejection of
  \<open>verify\<close> is the string of the default branch, \<open>UnsupportedNamespace\<close>, not
  \<open>UnsupportedOperation\<close>.
\<close>

theorem verify_unmatched_namespace_counterexample:
  "outcome (verify demo_wallet ''unknownNs'' (StringDoc ''hello'')
      \<lparr>sig_publicKey = Some demo_pub_key, signature_value = ''c2ln'', signedDoc = StringDoc ''hello''\<rparr>
      ''cosmos1abc'' (Some ''cosmoshub-4'')) = Inl UnsupportedNamespace
   \<and> UnsupportedNamespace \<noteq> UnsupportedOperation"
  by (simp add: verify_def UnsupportedNamespace_def UnsupportedOperation_def)

end
